theory Spec2Isabelle
  imports Complex_Main
begin

section \<open>Python values and strings\<close>

text \<open>
  The engine of \<^verbatim>\<open>etl_processor.py\<close> works on Python strings and on the cells of
  spreadsheet tables. A Python string is modelled as a list of its code points, restricted to
  the Latin-1 range, which covers every literal of the source (\<open>CHR 0xE9\<close> is e-acute,
  \<open>CHR 0xE8\<close> is e-grave, \<open>CHR 0xB0\<close> the degree sign).
\<close>

definition lower_chr :: "char \<Rightarrow> char" where
  \<comment> \<open>one character of \<^verbatim>\<open>str.lower()\<close>: A-Z and the Latin-1 capitals move up by 32\<close>
  "lower_chr c = (let n = (of_char c :: nat) in
     if (65 \<le> n \<and> n \<le> 90) \<or> (192 \<le> n \<and> n \<le> 222 \<and> n \<noteq> 215)
     then char_of (n + 32) else c)"

definition lower :: "string \<Rightarrow> string" where
  "lower s = map lower_chr s"

definition is_space :: "char \<Rightarrow> bool" where
  \<comment> \<open>\<^verbatim>\<open>str.isspace()\<close> on one Latin-1 character\<close>
  "is_space c = (let n = (of_char c :: nat) in
     (9 \<le> n \<and> n \<le> 13) \<or> (28 \<le> n \<and> n \<le> 32) \<or> n = 133 \<or> n = 160)"

definition strip :: "string \<Rightarrow> string" where
  "strip s = rev (dropWhile is_space (rev (dropWhile is_space s)))"

fun starts_with :: "string \<Rightarrow> string \<Rightarrow> bool" where
  \<comment> \<open>\<open>starts_with p s\<close>: \<^verbatim>\<open>s.startswith(p)\<close>\<close>
  "starts_with [] s = True"
| "starts_with (p # ps) [] = False"
| "starts_with (p # ps) (c # cs) = (p = c \<and> starts_with ps cs)"

fun str_in :: "string \<Rightarrow> string \<Rightarrow> bool" where
  \<comment> \<open>\<open>str_in x s\<close>: the Python test \<^verbatim>\<open>x in s\<close> on strings\<close>
  "str_in x [] = (x = [])"
| "str_in x (c # cs) = (starts_with x (c # cs) \<or> str_in x cs)"

definition ends_with :: "string \<Rightarrow> string \<Rightarrow> bool" where
  \<comment> \<open>\<open>ends_with p s\<close>: \<^verbatim>\<open>s.endswith(p)\<close>\<close>
  "ends_with p s = starts_with (rev p) (rev s)"

fun before_sep :: "string \<Rightarrow> string \<Rightarrow> string" where
  \<comment> \<open>\<^verbatim>\<open>s.split(sep)[0]\<close>: the part of \<open>s\<close> before the first occurrence of \<open>sep\<close>\<close>
  "before_sep sep [] = []"
| "before_sep sep (c # cs) = (if starts_with sep (c # cs) then [] else c # before_sep sep cs)"

fun split_bar :: "string \<Rightarrow> string list" where
  \<comment> \<open>the alternatives of a pattern, separated by \<open>|\<close>\<close>
  "split_bar [] = [[]]"
| "split_bar (c # cs) =
     (if c = CHR ''|'' then [] # split_bar cs
      else (case split_bar cs of [] \<Rightarrow> [[c]] | a # as \<Rightarrow> (c # a) # as))"

definition re_search :: "string \<Rightarrow> string \<Rightarrow> bool" where
  \<comment> \<open>\<^verbatim>\<open>re.search(pattern, s)\<close> succeeds. The patterns of the registry are alternations of
      literal words, for which the search is: some alternative occurs in \<open>s\<close>. Other regular
      expression operators are not modelled.\<close>
  "re_search pat s = list_ex (\<lambda>a. str_in a s) (split_bar pat)"

definition re_search_nocase :: "string \<Rightarrow> string \<Rightarrow> bool" where
  \<comment> \<open>the same search with \<^verbatim>\<open>case=False\<close> (pandas \<^verbatim>\<open>str.contains\<close>)\<close>
  "re_search_nocase pat s = re_search (lower pat) (lower s)"

text \<open>
  A cell of a table holds nothing (\<^verbatim>\<open>None\<close>), a missing number (\<^verbatim>\<open>NaN\<close>), an integer,
  a float or a string. Floats are modelled as exact reals: rounding is not modelled.
\<close>

datatype cell = PNone | PNaN | PInt int | PFloat real | PStr string

datatype pyerr =
    KeyError string
  | IndexError
  | ValueError string
  | AttributeError
  | TypeError
  | ReadError string

text \<open>
  The text of a number (\<^verbatim>\<open>str(x)\<close>) and the number of a text (\<^verbatim>\<open>float(s)\<close>, that raises
  \<^verbatim>\<open>ValueError\<close> where the result here is \<open>None\<close>) belong to Python, not to the
  repository: every function that needs them takes them as the parameter \<open>py\<close>.
\<close>

record builtins =
  str_int :: "int \<Rightarrow> string"
  str_float :: "real \<Rightarrow> string"
  float_str :: "string \<Rightarrow> real option"

definition isna :: "cell \<Rightarrow> bool" where
  \<comment> \<open>\<^verbatim>\<open>pd.isna\<close>\<close>
  "isna c = (c = PNone \<or> c = PNaN)"

fun truthy :: "cell \<Rightarrow> bool" where
  "truthy PNone = False"
| "truthy PNaN = True"
| "truthy (PInt n) = (n \<noteq> 0)"
| "truthy (PFloat x) = (x \<noteq> 0)"
| "truthy (PStr s) = (s \<noteq> [])"

fun py_str :: "builtins \<Rightarrow> cell \<Rightarrow> string" where
  "py_str py PNone = ''None''"
| "py_str py PNaN = ''nan''"
| "py_str py (PInt n) = str_int py n"
| "py_str py (PFloat x) = str_float py x"
| "py_str py (PStr s) = s"

fun eq_zero :: "cell \<Rightarrow> bool" where
  \<comment> \<open>\<^verbatim>\<open>weight == 0\<close>\<close>
  "eq_zero (PInt n) = (n = 0)"
| "eq_zero (PFloat x) = (x = 0)"
| "eq_zero c = False"

fun py_float :: "builtins \<Rightarrow> cell \<Rightarrow> pyerr + cell" where
  \<comment> \<open>\<^verbatim>\<open>float(weight)\<close>\<close>
  "py_float py (PInt n) = Inr (PFloat (of_int n))"
| "py_float py (PFloat x) = Inr (PFloat x)"
| "py_float py PNaN = Inr PNaN"
| "py_float py (PStr s) =
     (case float_str py s of None \<Rightarrow> Inl (ValueError s) | Some x \<Rightarrow> Inr (PFloat x))"
| "py_float py PNone = Inl TypeError"

fun times_1000 :: "cell \<Rightarrow> cell" where
  \<comment> \<open>\<^verbatim>\<open>weight * 1000\<close> on the result of \<^verbatim>\<open>float(weight)\<close>\<close>
  "times_1000 (PFloat x) = PFloat (x * 1000)"
| "times_1000 c = c"

fun int_times :: "int \<Rightarrow> cell \<Rightarrow> pyerr + cell" where
  \<comment> \<open>\<^verbatim>\<open>volume_contenant * quantity\<close>, the left operand a Python integer: a number is
      multiplied, a string is repeated\<close>
  "int_times v (PInt n) = Inr (PInt (v * n))"
| "int_times v (PFloat x) = Inr (PFloat (of_int v * x))"
| "int_times v (PStr s) = Inr (PStr (concat (replicate (nat v) s)))"
| "int_times v PNaN = Inr PNaN"
| "int_times v PNone = Inl TypeError"

fun num_val :: "cell \<Rightarrow> real option" where
  \<comment> \<open>the number a numeric cell stands for\<close>
  "num_val (PInt n) = Some (of_int n)"
| "num_val (PFloat x) = Some x"
| "num_val c = None"

section \<open>Tables\<close>

text \<open>
  A row is a dictionary from column names to cells, kept in insertion order; a data frame
  is its list of column names and its rows.
\<close>

type_synonym row = "(string \<times> cell) list"

record df =
  columns :: "string list"
  rows :: "row list"

definition row_get :: "row \<Rightarrow> string \<Rightarrow> cell" where
  \<comment> \<open>\<^verbatim>\<open>row.get(column)\<close>\<close>
  "row_get r c = (case map_of r c of None \<Rightarrow> PNone | Some v \<Rightarrow> v)"

section \<open>The registry of providers\<close>

record config =
  pattern :: "string option"
  weight_unit :: "string option"
  sheet_patterns :: "string list option"
  header_row_detection :: bool
  file_type :: "string option"
  csv_separator :: "string option"
  bsdd_format :: bool
  cfg_columns :: "(string \<times> string list) list"

definition empty_config :: config where
  \<comment> \<open>the \<^verbatim>\<open>{}\<close> that \<^verbatim>\<open>PRESTATAIRE_CONFIG.get(prestataire, {})\<close> gives an unknown provider\<close>
  "empty_config = \<lparr> pattern = None, weight_unit = None, sheet_patterns = None,
     header_row_detection = False, file_type = None, csv_separator = None,
     bsdd_format = False, cfg_columns = [] \<rparr>"

abbreviation (input) ea :: string where "ea \<equiv> [CHR 0xE9]"
abbreviation (input) eg :: string where "eg \<equiv> [CHR 0xE8]"
abbreviation (input) dg :: string where "dg \<equiv> [CHR 0xB0]"

definition cfg_Veolia :: config where
  "cfg_Veolia = empty_config \<lparr> pattern := Some ''veolia'', weight_unit := Some ''tonnes'',
     cfg_columns := [
       (''date'', [''date de r'' @ ea @ ''alisation'', ''date'']),
       (''site'', [''lieu de collecte'', ''site'', ''adresse'', ''lieu'']),
       (''waste'', [''mati'' @ eg @ ''re'', ''d'' @ ea @ ''chet'', ''type de d'' @ ea @ ''chet'']),
       (''weight'', [''poids'', ''masse'', ''quantit'' @ ea, ''kg'', ''tonnage'']),
       (''treatment_code'', [''code de traitement'', ''code traitement'', ''code r/d'']),
       (''waste_code'', [''cod ced'', ''code d'' @ ea @ ''chet'']),
       (''container'', [''mat'' @ ea @ ''riel'', ''contenant'', ''bac'']),
       (''quantity'', [''quantit'' @ ea @ '' factur'' @ ea @ ''e'', ''nombre'', ''nb'']),
       (''exutoire'', [''exutoire'', ''destination'', ''installation'']),
       (''transporter'', [''transporteur'']),
       (''bsd'', [''n'' @ dg @ '' de bon d'enl'' @ eg @ ''vement'', ''bsd'', ''bordereau''])] \<rparr>"

definition cfg_Suez :: config where
  "cfg_Suez = empty_config \<lparr> pattern := Some ''suez'', weight_unit := Some ''tonnes'',
     sheet_patterns := Some [''registre'', ''d'' @ ea @ ''chets'', ''data''],
     header_row_detection := True,
     cfg_columns := [
       (''date'', [''date de l'exp'' @ ea @ ''dition'', ''date'', ''date collecte'']),
       (''site'', [''nom du site'', ''site'', ''adresse'']),
       (''waste'', [''mati'' @ eg @ ''re'', ''d'' @ ea @ ''chet'', ''type'']),
       (''weight'', [''qt'' @ ea @ '' pes'' @ ea @ ''e'', ''poids'', ''masse'',
                     ''quantit'' @ ea @ '' pes'' @ ea @ ''e'']),
       (''treatment_code'', [''code r/d'', ''code de traitement'']),
       (''treatment_name'', [''libell'' @ ea @ '' r/d'', ''traitement'']),
       (''waste_code'', [''code d'' @ ea @ ''chet'', ''code ced'']),
       (''container_qty'', [''qt'' @ ea @ '' de mat'' @ ea @ ''riel'', ''nombre'']),
       (''container_vol'', [''volume du mat'' @ ea @ ''riel'', ''volume'']),
       (''exutoire'', [''nom de l'installation'', ''exutoire'']),
       (''transporter'', [''nom.1'', ''transporteur'']),
       (''bsd'', [''n'' @ dg @ '' du bsd'', ''bsd''])] \<rparr>"

definition cfg_Apeyron :: config where
  "cfg_Apeyron = empty_config \<lparr> pattern := Some ''apeyron'', weight_unit := Some ''kg'',
     cfg_columns := [
       (''date'', [''date'', ''date collecte'', ''jour'']),
       (''site'', [''nom etablissement'', ''etablissement'', ''site'', ''client'']),
       (''weight'', [''poids total kg'', ''poids'', ''kg'', ''masse'']),
       (''container_code'', [''volume bac'', ''bac'', ''contenant'']),
       (''container_qty'', [''nb bac'', ''nombre bac'', ''nb''])] \<rparr>"

definition cfg_Alchimistes :: config where
  "cfg_Alchimistes = empty_config \<lparr> pattern := Some ''alchimiste'', weight_unit := Some ''kg'',
     header_row_detection := True,
     cfg_columns := [
       (''date'', [''date'', ''date collecte'', ''jour'']),
       (''site'', [''site'', ''client'', ea @ ''tablissement'', ''etablissement'', ''nom'']),
       (''waste'', [''mati'' @ eg @ ''re'', ''d'' @ ea @ ''chet'', ''type'', ''flux'']),
       (''weight'', [''poids'', ''kg'', ''masse'', ''quantit'' @ ea, ''collecte'']),
       (''treatment_code'', [''code'', ''traitement'', ''r/d''])] \<rparr>"

definition cfg_Paprec :: config where
  "cfg_Paprec = empty_config \<lparr> pattern := Some ''paprec'', weight_unit := Some ''kg'',
     cfg_columns := [
       (''site_id'', [''num'' @ ea @ ''ro contrat'', ''contrat'', ''numero contrat'']),
       (''date'', [''date prestation'', ''date'']),
       (''waste'', [''libell'' @ ea @ '' qualit'' @ ea, ''qualit'' @ ea, ''mati'' @ eg @ ''re'']),
       (''container'', [''libell'' @ ea @ '' mat'' @ ea @ ''riel'', ''mat'' @ ea @ ''riel'']),
       (''quantity'', [''quantit'' @ ea, ''nombre'']),
       (''weight'', [''poids'', ''masse'']),
       (''bsd'', [''numerobe'', ''n'' @ dg @ '' be'']),
       (''month'', [''mois'']),
       (''year'', [''ann'' @ ea @ ''e''])] \<rparr>"

definition cfg_Elise :: config where
  "cfg_Elise = empty_config \<lparr> pattern := Some ''elise'', weight_unit := Some ''kg'',
     file_type := Some ''csv'', csv_separator := Some '';'',
     cfg_columns := [
       (''site_name'', [''nom'']),
       (''date'', [''date collecte'', ''date'']),
       (''waste'', [''gisement'', ''mati'' @ eg @ ''re'']),
       (''waste_code'', [''code nomenclature'']),
       (''weight'', [''quantit'' @ ea, ''kg'']),
       (''treatment_code_intermediate'', [''code d/r'']),
       (''exutoire'', [''installation''])] \<rparr>"

definition bsdd_columns :: "(string \<times> string list) list" where
  \<comment> \<open>the column rules that Screlec and Trackdechet both have\<close>
  "bsdd_columns = [
       (''bsd'', [''n'' @ dg @ '' de bordereau'']),
       (''date'', [''date de r'' @ ea @ ''alisation'', ''date d'exp'' @ ea @ ''dition'']),
       (''waste_name'', [''d'' @ ea @ ''nomination usuelle'']),
       (''waste_code'', [''code du d'' @ ea @ ''chet'']),
       (''weight'', [''quantit'' @ ea @ '' r'' @ ea @ ''ceptionn'' @ ea @ ''e'',
                     ''quantit'' @ ea @ '' accept'' @ ea @ ''e'']),
       (''site_name'', [''exp'' @ ea @ ''diteur nom usuel'']),
       (''treatment_code'', [''code op'' @ ea @ ''ration r'' @ ea @ ''alis'' @ ea]),
       (''transporter'', [''transporteur raison sociale'']),
       (''destination'', [''destination raison sociale''])]"

definition cfg_Screlec :: config where
  "cfg_Screlec = empty_config \<lparr> pattern := Some ''screlec'', weight_unit := Some ''tonnes'',
     bsdd_format := True, cfg_columns := bsdd_columns \<rparr>"

definition cfg_Trackdechet :: config where
  "cfg_Trackdechet = empty_config \<lparr> pattern := Some ''trackdechet|td-registre'',
     weight_unit := Some ''tonnes'', bsdd_format := True, cfg_columns := bsdd_columns \<rparr>"

definition PRESTATAIRE_CONFIG :: "(string \<times> config) list" where
  "PRESTATAIRE_CONFIG = [
     (''Veolia'', cfg_Veolia),
     (''Suez'', cfg_Suez),
     (''Apeyron'', cfg_Apeyron),
     (''Les Alchimistes'', cfg_Alchimistes),
     (''Paprec'', cfg_Paprec),
     (''Elise'', cfg_Elise),
     (''Screlec'', cfg_Screlec),
     (''Trackdechet'', cfg_Trackdechet)]"

definition get_config :: "string \<Rightarrow> config" where
  \<comment> \<open>\<^verbatim>\<open>PRESTATAIRE_CONFIG.get(prestataire, {})\<close>\<close>
  "get_config prest = (case map_of PRESTATAIRE_CONFIG prest of None \<Rightarrow> empty_config | Some c \<Rightarrow> c)"

definition get_pattern :: "config \<Rightarrow> string \<Rightarrow> string" where
  \<comment> \<open>\<^verbatim>\<open>config.get("pattern", name.lower())\<close>\<close>
  "get_pattern cfg nm = (case pattern cfg of None \<Rightarrow> lower nm | Some p \<Rightarrow> p)"

section \<open>Provider detection\<close>

fun detect_in :: "(string \<times> config) list \<Rightarrow> string \<Rightarrow> string option" where
  \<comment> \<open>the loop of \<^verbatim>\<open>detect_prestataire\<close> over the registry entries that are left\<close>
  "detect_in [] filename_lower = None"
| "detect_in ((nm, cfg) # rest) filename_lower =
     (if re_search (get_pattern cfg nm) filename_lower then Some nm
      else detect_in rest filename_lower)"

definition detect_prestataire :: "string \<Rightarrow> string option" where
  "detect_prestataire filename = detect_in PRESTATAIRE_CONFIG (lower filename)"

section \<open>The engine and its mapping helpers\<close>

fun dict_set :: "'k \<Rightarrow> 'v \<Rightarrow> ('k \<times> 'v) list \<Rightarrow> ('k \<times> 'v) list" where
  \<comment> \<open>\<^verbatim>\<open>d[k] = v\<close> on a dictionary in insertion order: a key that is there keeps its place\<close>
  "dict_set k v [] = [(k, v)]"
| "dict_set k v ((k', v') # kvs) =
     (if k' = k then (k, v) # kvs else (k', v') # dict_set k v kvs)"

record site_info =
  nom_site :: cell
  code_prestation :: cell
  prestataire :: cell

record trait_entry =
  code :: cell
  traitement :: cell

record engine =
  template_columns :: "string list"
  dechet_df :: df
  site_df :: df
  dechet_to_agrege :: "(string \<times> string) list"
  traitement_lookup :: "(string \<times> trait_entry) list"
  warnings :: "string list"

definition col_formule :: string where
  "col_formule = ''Nom prestataire (FORMULE)''"

definition filter_formule :: "df \<Rightarrow> string \<Rightarrow> pyerr + row list" where
  \<comment> \<open>\<^verbatim>\<open>df[df['Nom prestataire (FORMULE)'].str.contains(pattern, case=False, na=False)]\<close>;
      a frame without the column raises \<^verbatim>\<open>KeyError\<close>\<close>
  "filter_formule d pat =
     (if col_formule \<in> set (columns d)
      then Inr (filter (\<lambda>r. case row_get r col_formule of
                               PStr s \<Rightarrow> re_search_nocase pat s | _ \<Rightarrow> False) (rows d))
      else Inl (KeyError col_formule))"

fun dechet_loop :: "builtins \<Rightarrow> row list \<Rightarrow> (string \<times> cell) list \<times> cell \<Rightarrow> (string \<times> cell) list \<times> cell" where
  "dechet_loop py [] acc = acc"
| "dechet_loop py (r # rest) (lookup, dflt) =
     (let prest = row_get r (''Nom des d'' @ ea @ ''chets prestataire'');
          urbyn = row_get r (''Nom des d'' @ ea @ ''chets Urbyn'')
      in if isna prest
         then (if \<not> isna urbyn then dechet_loop py rest (lookup, urbyn)
               else dechet_loop py rest (lookup, dflt))
         else if \<not> isna urbyn
         then dechet_loop py rest (dict_set (lower (strip (py_str py prest))) urbyn lookup, dflt)
         else dechet_loop py rest (lookup, dflt))"

definition get_dechet_mapping :: "builtins \<Rightarrow> engine \<Rightarrow> string \<Rightarrow> pyerr + ((string \<times> cell) list \<times> cell)" where
  "get_dechet_mapping py eng prestataire_pattern =
     (case filter_formule (dechet_df eng) prestataire_pattern of
        Inl e \<Rightarrow> Inl e
      | Inr df_filtered \<Rightarrow> Inr (dechet_loop py df_filtered ([], PNone)))"

fun site_loop :: "builtins \<Rightarrow> row list \<Rightarrow> (string \<times> site_info) list \<Rightarrow> (string \<times> site_info) list" where
  "site_loop py [] lookup = lookup"
| "site_loop py (r # rest) lookup =
     (let site_prest = row_get r ''Nom site prestataire''
      in if \<not> isna site_prest
         then site_loop py rest
                (dict_set (lower (strip (py_str py site_prest)))
                   \<lparr> nom_site = row_get r ''Nom site Urbyn'',
                     code_prestation = row_get r ''Code de la prestation'',
                     prestataire = row_get r col_formule \<rparr> lookup)
         else site_loop py rest lookup)"

definition get_site_mapping :: "builtins \<Rightarrow> engine \<Rightarrow> string \<Rightarrow> pyerr + (string \<times> site_info) list" where
  "get_site_mapping py eng prestataire_pattern =
     (case filter_formule (site_df eng) prestataire_pattern of
        Inl e \<Rightarrow> Inl e
      | Inr df_filtered \<Rightarrow> Inr (site_loop py df_filtered []))"

fun find_column :: "df \<Rightarrow> string list \<Rightarrow> string option" where
  "find_column d [] = None"
| "find_column d (nm # possible_names) =
     (case List.find (\<lambda>col. str_in (lower nm) (lower col)) (columns d) of
        Some col \<Rightarrow> Some col
      | None \<Rightarrow> find_column d possible_names)"

definition safe_get :: "row \<Rightarrow> string option \<Rightarrow> cell \<Rightarrow> cell" where
  "safe_get r column dflt =
     (case column of
        None \<Rightarrow> dflt
      | Some c \<Rightarrow> (let v = row_get r c in if isna v then dflt else v))"

definition extract_code_site :: "builtins \<Rightarrow> cell \<Rightarrow> cell" where
  "extract_code_site py s =
     (if isna s then PNone
      else let nom_str = py_str py s
           in if str_in '' - '' nom_str then PStr (before_sep '' - '' nom_str) else PNone)"

definition map_dechet :: "builtins \<Rightarrow> cell \<Rightarrow> (string \<times> cell) list \<Rightarrow> cell \<Rightarrow> cell" where
  "map_dechet py dechet_prest lookup dflt =
     (if isna dechet_prest \<or> strip (py_str py dechet_prest) = [] then dflt
      else (case map_of lookup (lower (strip (py_str py dechet_prest))) of
              None \<Rightarrow> dflt | Some v \<Rightarrow> v))"

definition map_agrege :: "builtins \<Rightarrow> engine \<Rightarrow> cell \<Rightarrow> cell" where
  "map_agrege py eng dechet_fin =
     (if isna dechet_fin then PNone
      else (case map_of (dechet_to_agrege eng) (lower (strip (py_str py dechet_fin))) of
              None \<Rightarrow> PNone | Some a \<Rightarrow> PStr a))"

definition lookup_agrege :: "engine \<Rightarrow> cell \<Rightarrow> trait_entry option" where
  \<comment> \<open>\<^verbatim>\<open>agrege in self.traitement_lookup\<close>: the keys are strings, so only a string is found\<close>
  "lookup_agrege eng agrege =
     (case agrege of PStr s \<Rightarrow> map_of (traitement_lookup eng) s | _ \<Rightarrow> None)"

definition map_traitement :: "builtins \<Rightarrow> engine \<Rightarrow> cell \<Rightarrow> cell \<Rightarrow> cell \<times> cell" where
  "map_traitement py eng agrege c =
     (if isna agrege then (PNone, PNone)
      else (case (if \<not> isna c \<and> strip (py_str py c) \<noteq> []
                  then map_of (traitement_lookup eng) (py_str py agrege @ strip (py_str py c))
                  else None) of
              Some r \<Rightarrow> (code r, traitement r)
            | None \<Rightarrow> (case lookup_agrege eng agrege of
                          Some r \<Rightarrow> (code r, traitement r)
                        | None \<Rightarrow> (PNone, PNone))))"

fun partial_match :: "string \<Rightarrow> (string \<times> site_info) list \<Rightarrow> site_info option" where
  \<comment> \<open>the loop of \<^verbatim>\<open>_map_site\<close> over the entries of the lookup, in their order\<close>
  "partial_match key [] = None"
| "partial_match key ((lookup_key, v) # rest) =
     (if str_in key lookup_key \<or> str_in lookup_key key then Some v
      else partial_match key rest)"

definition map_site :: "builtins \<Rightarrow> cell \<Rightarrow> (string \<times> site_info) list \<Rightarrow> site_info option" where
  "map_site py site_name site_lookup =
     (if isna site_name then None
      else let key = lower (strip (py_str py site_name))
           in (case map_of site_lookup key of
                 Some v \<Rightarrow> Some v
               | None \<Rightarrow> partial_match key site_lookup))"

section \<open>Reading the uploaded files\<close>

text \<open>
  What the spreadsheet library reads from an uploaded file is part of the file: its name,
  the two ways \<^verbatim>\<open>pd.read_csv\<close> is called on it, the sheet names of the workbook
  (\<^verbatim>\<open>pd.ExcelFile(file).sheet_names\<close>), the first rows of a sheet read without header and
  a sheet read with the header at a given row. Each call may raise.
\<close>

datatype sheet_ref = SheetIndex nat | SheetName string

record upload =
  name :: string
  csv_semicolon :: "pyerr + df"
  csv_comma :: "pyerr + df"
  sheet_names :: "pyerr + string list"
  excel_raw :: "sheet_ref \<Rightarrow> pyerr + cell list list"
  excel :: "sheet_ref \<Rightarrow> nat \<Rightarrow> pyerr + df"

fun sheet_loop :: "string list \<Rightarrow> string list \<Rightarrow> sheet_ref \<Rightarrow> sheet_ref" where
  \<comment> \<open>the loop over \<^verbatim>\<open>config['sheet_patterns']\<close>: the inner loop stops at the first sheet
      that matches, the outer loop goes on with the next pattern\<close>
  "sheet_loop [] sheets sheet_name = sheet_name"
| "sheet_loop (pat # pats) sheets sheet_name =
     sheet_loop pats sheets
       (case List.find (\<lambda>sheet. str_in (lower pat) (lower sheet)) sheets of
          Some sheet \<Rightarrow> SheetName sheet
        | None \<Rightarrow> sheet_name)"

definition choose_sheet :: "config \<Rightarrow> string list \<Rightarrow> sheet_ref" where
  "choose_sheet cfg sheets =
     (case sheet_patterns cfg of
        Some pats \<Rightarrow> sheet_loop pats sheets (SheetIndex 0)
      | None \<Rightarrow> if ''registre'' \<in> set (map lower sheets) then SheetName ''registre''
                else SheetIndex 0)"

fun join_space :: "string list \<Rightarrow> string" where
  \<comment> \<open>\<^verbatim>\<open>' '.join(xs)\<close>\<close>
  "join_space [] = []"
| "join_space [x] = x"
| "join_space (x # y # ys) = x @ '' '' @ join_space (y # ys)"

definition is_header_row :: "builtins \<Rightarrow> cell list \<Rightarrow> bool" where
  "is_header_row py vals =
     (let row_text = join_space (map (\<lambda>v. lower (py_str py v)) (filter (\<lambda>v. \<not> isna v) vals))
      in str_in ''date'' row_text \<and>
         (str_in ''poids'' row_text \<or> str_in ''kg'' row_text \<or>
          str_in (''mati'' @ eg @ ''re'') row_text))"

fun header_scan :: "builtins \<Rightarrow> cell list list \<Rightarrow> nat \<Rightarrow> nat" where
  \<comment> \<open>the index of the first header row at or after row \<open>i\<close>, 0 when there is none\<close>
  "header_scan py [] i = 0"
| "header_scan py (vals # rest) i =
     (if is_header_row py vals then i else header_scan py rest (Suc i))"

definition read_file :: "builtins \<Rightarrow> upload \<Rightarrow> string \<Rightarrow> pyerr + df" where
  "read_file py f prest =
     (let cfg = get_config prest
      in if file_type cfg = Some ''csv'' \<or> ends_with ''.csv'' (name f)
         then (case csv_semicolon f of
                 Inr d \<Rightarrow> if length (columns d) > 5 then Inr d else csv_comma f
               | Inl e \<Rightarrow> csv_comma f)
         else (case sheet_names f of
                 Inl e \<Rightarrow> Inl e
               | Inr sheets \<Rightarrow>
                   (let sheet_name = choose_sheet cfg sheets
                    in if header_row_detection cfg
                       then (case excel_raw f sheet_name of
                               Inl e \<Rightarrow> Inl e
                             | Inr df_raw \<Rightarrow> excel f sheet_name (header_scan py df_raw 0))
                       else excel f sheet_name 0)))"

definition set_column :: "df \<Rightarrow> string \<Rightarrow> cell \<Rightarrow> df" where
  \<comment> \<open>\<^verbatim>\<open>df[col] = v\<close>: a new column goes last, a column that is there is overwritten\<close>
  "set_column d c v =
     \<lparr> columns = (if c \<in> set (columns d) then columns d else columns d @ [c]),
       rows = map (dict_set c v) (rows d) \<rparr>"

definition first_seen :: "string list \<Rightarrow> string list" where
  \<comment> \<open>the distinct elements in the order of their first occurrence\<close>
  "first_seen xs = rev (remdups (rev xs))"

definition fill_row :: "string list \<Rightarrow> row \<Rightarrow> row" where
  \<comment> \<open>a row under the columns \<open>cs\<close>; a column the row does not have is \<^verbatim>\<open>NaN\<close>\<close>
  "fill_row cs r = map (\<lambda>c. (c, case map_of r c of None \<Rightarrow> PNaN | Some v \<Rightarrow> v)) cs"

definition concat_dfs :: "df list \<Rightarrow> df" where
  \<comment> \<open>\<^verbatim>\<open>pd.concat(dfs, ignore_index=True)\<close>\<close>
  "concat_dfs dfs =
     (let cs = first_seen (concat (map columns dfs))
      in \<lparr> columns = cs, rows = map (fill_row cs) (concat (map rows dfs)) \<rparr>)"

fun read_files :: "builtins \<Rightarrow> upload list \<Rightarrow> string \<Rightarrow> pyerr + df list" where
  "read_files py [] prest = Inr []"
| "read_files py (f # fs) prest =
     (case read_file py f prest of
        Inl e \<Rightarrow> Inl e
      | Inr d \<Rightarrow> (case read_files py fs prest of
                    Inl e \<Rightarrow> Inl e
                  | Inr dfs \<Rightarrow> Inr (set_column d ''_source_file'' (PStr (name f)) # dfs)))"

definition combine :: "df list \<Rightarrow> pyerr + df" where
  \<comment> \<open>\<^verbatim>\<open>pd.concat(dfs, ignore_index=True) if len(dfs) > 1 else dfs[0]\<close>\<close>
  "combine dfs =
     (if length dfs > 1 then Inr (concat_dfs dfs)
      else (case dfs of [] \<Rightarrow> Inl IndexError | d # _ \<Rightarrow> Inr d))"

section \<open>Processing one row\<close>

definition PAPREC_CONTAINER_VOLUMES :: "(string \<times> int) list" where
  "PAPREC_CONTAINER_VOLUMES = [
     (''bac roulant 660l'', 660), (''bac roulant 340l'', 340), (''bac roulant 770l'', 770),
     (''bac roulant 240l'', 240), (''bac roulant 120l'', 120), (''caisse palette 600l'', 600),
     (''palette'', 1000), (''balle'', 1000), (''box'', 1000), (''sac'', 110)]"

definition PAPREC_CONTAINER_TYPES :: "(string \<times> string) list" where
  "PAPREC_CONTAINER_TYPES = [
     (''bac roulant 660l'', ''Bac 4 roues - 660 L''), (''bac roulant 340l'', ''Bac 2 roues - 340 L''),
     (''bac roulant 770l'', ''Bac 4 roues - 770 L''), (''bac roulant 240l'', ''Bac 2 roues - 240 L''),
     (''bac roulant 120l'', ''Bac 2 roues - 120 L''),
     (''caisse palette 600l'', ''Caisse Palette - 600 L''),
     (''palette'', ''Palette - 1 m3''), (''balle'', ''Balle - 1 m3''), (''box'', ''Box - 1 m3''),
     (''sac'', ''Sac - 110 L''), (''vrac'', ''Equipement inconnu'')]"

type_synonym cols = "(string \<times> string option) list"

definition cols_get :: "cols \<Rightarrow> string \<Rightarrow> string option" where
  \<comment> \<open>\<^verbatim>\<open>cols.get(key)\<close>\<close>
  "cols_get cs k = (case map_of cs k of None \<Rightarrow> None | Some c \<Rightarrow> c)"

definition col_or :: "string option \<Rightarrow> string option \<Rightarrow> string option" where
  \<comment> \<open>\<^verbatim>\<open>a or b\<close> on column names: \<^verbatim>\<open>None\<close> and the empty name are false\<close>
  "col_or a b = (case a of None \<Rightarrow> b | Some c \<Rightarrow> if c = [] then b else a)"

definition cell_or :: "cell \<Rightarrow> cell \<Rightarrow> cell" where
  \<comment> \<open>\<^verbatim>\<open>a or b\<close> on cells\<close>
  "cell_or a b = (if truthy a then a else b)"

definition sentinel_site :: site_info where
  "sentinel_site = \<lparr> nom_site = PStr ''Site inconnu'', code_prestation = PNone,
                     prestataire = PNone \<rparr>"

definition site_warning :: "builtins \<Rightarrow> cell \<Rightarrow> string" where
  \<comment> \<open>the message \<^verbatim>\<open>No site mapping for: '{site_name}'\<close>\<close>
  "site_warning py site_name =
     ''No site mapping for: '' @ [CHR 0x27] @ py_str py site_name @ [CHR 0x27]"

definition convert_weight :: "builtins \<Rightarrow> config \<Rightarrow> cell \<Rightarrow> pyerr + cell" where
  \<comment> \<open>lines 481 to 486 of \<^verbatim>\<open>_process_row\<close>\<close>
  "convert_weight py cfg weight =
     (if truthy weight
      then (case py_float py weight of
              Inl e \<Rightarrow> Inl e
            | Inr w \<Rightarrow> Inr (if weight_unit cfg = Some ''tonnes'' then times_1000 w else w))
      else Inr (PInt 0))"

definition container_info :: "string \<Rightarrow> cell \<Rightarrow> pyerr + (int option \<times> cell)" where
  \<comment> \<open>lines 502 to 507: the volume and the type of the container; \<^verbatim>\<open>container.lower()\<close>
      raises where the container is a number\<close>
  "container_info prest container =
     (if truthy container \<and> prest = ''Paprec''
      then (case container of
              PStr s \<Rightarrow>
                (let container_lower = strip (lower s)
                 in Inr (map_of PAPREC_CONTAINER_VOLUMES container_lower,
                         PStr (case map_of PAPREC_CONTAINER_TYPES container_lower of
                                 None \<Rightarrow> ''Equipement inconnu'' | Some t \<Rightarrow> t)))
            | _ \<Rightarrow> Inl AttributeError)
      else Inr (None, PNone))"

definition total_volume :: "int option \<Rightarrow> cell \<Rightarrow> pyerr + cell" where
  \<comment> \<open>\<^verbatim>\<open>volume_contenant * quantity if volume_contenant and quantity else None\<close>\<close>
  "total_volume volume_contenant quantity =
     (case volume_contenant of
        None \<Rightarrow> Inr PNone
      | Some v \<Rightarrow> if v \<noteq> 0 \<and> truthy quantity then int_times v quantity else Inr PNone)"

definition int_cell :: "int option \<Rightarrow> cell" where
  "int_cell v = (case v of None \<Rightarrow> PNone | Some n \<Rightarrow> PInt n)"

definition build_row ::
  "builtins \<Rightarrow> string \<Rightarrow> site_info \<Rightarrow> cell \<Rightarrow> cell \<Rightarrow> cell \<Rightarrow> cell \<Rightarrow> cell \<Rightarrow> cell \<Rightarrow> cell \<Rightarrow>
   int option \<Rightarrow> cell \<Rightarrow> cell \<Rightarrow> cell \<Rightarrow> cell \<Rightarrow> cell \<Rightarrow> cell \<Rightarrow> cell \<Rightarrow> cell \<Rightarrow> row" where
  \<comment> \<open>the dictionary that \<^verbatim>\<open>_process_row\<close> returns, lines 512 to 558\<close>
  "build_row py prest site date_val waste_code dechet_fin dechets_agrege dechets_prest weight
     quantity volume_contenant type_contenant volume_total trait code_final code_prest bsd
     transporter exutoire = [
     (''Libell'' @ ea, PNone),
     (''Groupe'', PStr ''Capgemini''),
     (''Code site'', extract_code_site py (nom_site site)),
     (''Nom du site'', nom_site site),
     (''Nom du client'', PStr ''CAPGEMINI TECHNOLOGY SERVICES''),
     (''Type de porteur'', PStr ''FM''),
     (''Commentaire mouvement'', PNone),
     (''Code de la prestation'', code_prestation site),
     (''Prestataire'', cell_or (cell_or (prestataire site) transporter) (PStr prest)),
     (''Groupe de Prestataire'', PStr prest),
     (''Type de prestataire'', PStr (''Priv'' @ ea)),
     (''P'' @ ea @ ''riodicit'' @ ea, PStr ''Jour''),
     (''Date d'' @ ea @ ''but registre'', date_val),
     (''Date fin registre'', date_val),
     (''Code d'' @ ea @ ''chet prestataire'', waste_code),
     (''D'' @ ea @ ''chet fin'', dechet_fin),
     (''D'' @ ea @ ''chets agr'' @ ea @ ''g'' @ ea, dechets_agrege),
     (''D'' @ ea @ ''chets prestataire'', cell_or dechets_prest dechet_fin),
     (''Masse totale (kg)'', weight),
     (''Nombre de contenants'', quantity),
     (''Volume contenant (L)'', int_cell volume_contenant),
     (''Type de contenant'', type_contenant),
     (''Volume total (L)'', volume_total),
     (''Nature de quantit'' @ ea @ ''s collect'' @ ea @ ''es'', PStr ''Masse''),
     (''Qualit'' @ ea @ '' quantit'' @ ea @ ''s'', PStr ''Document prestataire''),
     (''Pr'' @ ea @ ''cision estimations des quantit'' @ ea @ ''s'', PNone),
     (''Traitement'', trait),
     (''Traitement prestataire'', PNone),
     (''Code traitement'', code_final),
     (''Code traitement prestataire'', code_prest),
     (''Qualit'' @ ea @ '' du Traitement'', PStr ''Document prestataire''),
     (''N'' @ dg @ '' de BSD/BSDD'', bsd),
     (''N'' @ dg @ '' de rec'' @ ea @ ''piss'' @ ea, PNone),
     (''Transporteur'', transporter),
     (''Transporteur prestataire'', transporter),
     (''Plaque d'immatriculation'', PNone),
     (''Exutoire interm'' @ ea @ ''diaire'', PNone),
     (''Exutoire interm'' @ ea @ ''diaire prestataire'', PNone),
     (''Qualit'' @ ea @ '' de l'exutoire interm'' @ ea @ ''diaire'', PNone),
     (''Exutoire final'', exutoire),
     (''Exutoire final prestataire'', exutoire),
     (''Qualit'' @ ea @ '' de l'exutoire final'', PStr ''Document prestataire''),
     (''P'' @ ea @ ''riode de cl'' @ [CHR 0xF4] @ ''ture'', PNone),
     (''Statut du mouvement'', PStr (''R'' @ ea @ ''alis'' @ ea @ ''e'')),
     (''Commentaire'', PNone)]"

definition site_col :: "cols \<Rightarrow> string option" where
  \<comment> \<open>\<^verbatim>\<open>cols.get('site') or cols.get('site_name') or cols.get('site_id')\<close>\<close>
  "site_col cs = col_or (col_or (cols_get cs ''site'') (cols_get cs ''site_name''))
                        (cols_get cs ''site_id'')"

definition waste_col :: "cols \<Rightarrow> string option" where
  "waste_col cs = col_or (cols_get cs ''waste'') (cols_get cs ''waste_name'')"

definition code_col :: "cols \<Rightarrow> string option" where
  "code_col cs = col_or (cols_get cs ''treatment_code'') (cols_get cs ''treatment_code_done'')"

definition weight_col :: "cols \<Rightarrow> string option" where
  "weight_col cs = cols_get cs ''weight''"

definition exutoire_col :: "cols \<Rightarrow> string option" where
  "exutoire_col cs = col_or (cols_get cs ''exutoire'') (cols_get cs ''destination'')"

definition quantity_col :: "cols \<Rightarrow> string option" where
  "quantity_col cs = col_or (cols_get cs ''quantity'') (cols_get cs ''container_qty'')"

text \<open>
  \<^verbatim>\<open>_process_row\<close> returns a row, \<^verbatim>\<open>None\<close> for a row that is skipped, or raises; the
  warning log is a field of the engine, so the engine is returned with the result, also when
  the row raises.
\<close>

definition process_row ::
  "builtins \<Rightarrow> engine \<Rightarrow> row \<Rightarrow> cols \<Rightarrow> string \<Rightarrow> config \<Rightarrow> (string \<times> cell) list \<Rightarrow> cell \<Rightarrow>
   (string \<times> site_info) list \<Rightarrow> (pyerr + row option) \<times> engine" where
  "process_row py eng r cs prest cfg dechet_lookup default_dechet site_lookup =
     (let site_name = safe_get r (site_col cs) (PStr []);
          found = map_site py site_name site_lookup;
          eng1 = (case found of
                    None \<Rightarrow> eng \<lparr> warnings := warnings eng @ [site_warning py site_name] \<rparr>
                  | Some s \<Rightarrow> eng);
          site = (case found of None \<Rightarrow> sentinel_site | Some s \<Rightarrow> s);
          dechets_prest = safe_get r (waste_col cs) (PStr []);
          dechet_fin = map_dechet py dechets_prest dechet_lookup default_dechet;
          dechets_agrege = map_agrege py eng1 dechet_fin;
          code_prest = safe_get r (code_col cs) (PStr []);
          mapped = map_traitement py eng1 dechets_agrege code_prest;
          code_final = (if fst mapped = PNone then code_prest else fst mapped);
          weight = safe_get r (weight_col cs) (PInt 0)
      in if bsdd_format cfg \<and> (isna weight \<or> eq_zero weight) then (Inr None, eng1)
         else (case convert_weight py cfg weight of
                 Inl e \<Rightarrow> (Inl e, eng1)
               | Inr weight_kg \<Rightarrow>
                   (let date_val = safe_get r (cols_get cs ''date'') PNone;
                        bsd = safe_get r (cols_get cs ''bsd'') PNone;
                        waste_code = safe_get r (cols_get cs ''waste_code'') PNone;
                        transporter = safe_get r (cols_get cs ''transporter'') PNone;
                        exutoire = safe_get r (exutoire_col cs) PNone;
                        container = safe_get r (cols_get cs ''container'') (PStr []);
                        quantity = safe_get r (quantity_col cs) (PInt 1)
                    in (case container_info prest container of
                          Inl e \<Rightarrow> (Inl e, eng1)
                        | Inr (volume_contenant, type_contenant) \<Rightarrow>
                            (case total_volume volume_contenant quantity of
                               Inl e \<Rightarrow> (Inl e, eng1)
                             | Inr volume_total \<Rightarrow>
                                 (Inr (Some (build_row py prest site date_val waste_code
                                        dechet_fin dechets_agrege dechets_prest weight_kg quantity
                                        volume_contenant type_contenant volume_total (snd mapped)
                                        code_final code_prest bsd transporter exutoire)),
                                  eng1))))))"

section \<open>The whole run\<close>

fun process_rows ::
  "builtins \<Rightarrow> engine \<Rightarrow> row list \<Rightarrow> cols \<Rightarrow> string \<Rightarrow> config \<Rightarrow> (string \<times> cell) list \<Rightarrow> cell \<Rightarrow>
   (string \<times> site_info) list \<Rightarrow> row list \<Rightarrow> nat \<Rightarrow> (pyerr + row list \<times> nat) \<times> engine" where
  \<comment> \<open>the loop over \<^verbatim>\<open>df_input.iterrows()\<close>, lines 412 to 418\<close>
  "process_rows py eng [] cs prest cfg dl dd sl output_rows skipped =
     (Inr (output_rows, skipped), eng)"
| "process_rows py eng (r # rest) cs prest cfg dl dd sl output_rows skipped =
     (case process_row py eng r cs prest cfg dl dd sl of
        (Inl e, eng1) \<Rightarrow> (Inl e, eng1)
      | (Inr None, eng1) \<Rightarrow> process_rows py eng1 rest cs prest cfg dl dd sl output_rows (skipped + 1)
      | (Inr (Some res), eng1) \<Rightarrow>
          (if res \<noteq> []
           then process_rows py eng1 rest cs prest cfg dl dd sl (output_rows @ [res]) skipped
           else process_rows py eng1 rest cs prest cfg dl dd sl output_rows (skipped + 1)))"

definition DataFrame :: "row list \<Rightarrow> df" where
  \<comment> \<open>\<^verbatim>\<open>pd.DataFrame(output_rows)\<close>: the columns are the keys in the order they are first seen\<close>
  "DataFrame rs =
     (let cs = first_seen (concat (map (map fst) rs))
      in \<lparr> columns = cs, rows = map (fill_row cs) rs \<rparr>)"

fun add_missing :: "string list \<Rightarrow> df \<Rightarrow> df" where
  \<comment> \<open>lines 424 to 426: every template column that the frame lacks is added, empty\<close>
  "add_missing [] d = d"
| "add_missing (col # rest) d =
     add_missing rest (if col \<notin> set (columns d) then set_column d col PNone else d)"

definition select_columns :: "df \<Rightarrow> string list \<Rightarrow> pyerr + df" where
  \<comment> \<open>\<^verbatim>\<open>df[cols]\<close>: the columns \<open>cs\<close> in their order; a column that is not there raises\<close>
  "select_columns d cs =
     (case List.find (\<lambda>c. c \<notin> set (columns d)) cs of
        Some c \<Rightarrow> Inl (KeyError c)
      | None \<Rightarrow> Inr \<lparr> columns = cs, rows = map (\<lambda>r. map (\<lambda>c. (c, row_get r c)) cs) (rows d) \<rparr>)"

definition build_output :: "string list \<Rightarrow> row list \<Rightarrow> pyerr + df" where
  \<comment> \<open>lines 421 to 427 of \<^verbatim>\<open>process\<close>\<close>
  "build_output template_cols output_rows =
     select_columns (add_missing template_cols (DataFrame output_rows)) template_cols"

record result =
  success :: bool
  error :: "pyerr option"
  data :: "df option"
  rows_processed :: nat
  rows_skipped :: nat
  res_warnings :: "string list"

definition process_try ::
  "builtins \<Rightarrow> engine \<Rightarrow> upload list \<Rightarrow> string \<Rightarrow> (pyerr + df \<times> nat) \<times> engine" where
  \<comment> \<open>the body of the \<^verbatim>\<open>try\<close> of \<^verbatim>\<open>process\<close>: the output table and the number of skipped
      rows, or the exception raised, with the engine as it is then\<close>
  "process_try py eng files prest =
     (let cfg = get_config prest;
          pat = get_pattern cfg prest
      in case get_dechet_mapping py eng pat of
           Inl e \<Rightarrow> (Inl e, eng)
         | Inr (dechet_lookup, default_dechet) \<Rightarrow>
        (case get_site_mapping py eng pat of
           Inl e \<Rightarrow> (Inl e, eng)
         | Inr site_lookup \<Rightarrow>
        (case read_files py files prest of
           Inl e \<Rightarrow> (Inl e, eng)
         | Inr dfs \<Rightarrow>
        (case combine dfs of
           Inl e \<Rightarrow> (Inl e, eng)
         | Inr df_input \<Rightarrow>
        (let cs = map (\<lambda>(key, pats). (key, find_column df_input pats)) (cfg_columns cfg)
         in case process_rows py eng (rows df_input) cs prest cfg dechet_lookup default_dechet
                   site_lookup [] 0 of
              (Inl e, eng1) \<Rightarrow> (Inl e, eng1)
            | (Inr (output_rows, skipped), eng1) \<Rightarrow>
                (case build_output (template_columns eng1) output_rows of
                   Inl e \<Rightarrow> (Inl e, eng1)
                 | Inr df_output \<Rightarrow> (Inr (df_output, skipped), eng1)))))))"

definition process :: "builtins \<Rightarrow> engine \<Rightarrow> upload list \<Rightarrow> string \<Rightarrow> result \<times> engine" where
  \<comment> \<open>the log is emptied, then the body runs; an exception becomes the failure result\<close>
  "process py eng files prest =
     (case process_try py (eng \<lparr> warnings := [] \<rparr>) files prest of
        (Inr (df_output, skipped), eng1) \<Rightarrow>
          (\<lparr> success = True, error = None, data = Some df_output,
             rows_processed = length (rows df_output), rows_skipped = skipped,
             res_warnings = warnings eng1 \<rparr>, eng1)
      | (Inl e, eng1) \<Rightarrow>
          (\<lparr> success = False, error = Some e, data = None,
             rows_processed = 0, rows_skipped = 0,
             res_warnings = warnings eng1 \<rparr>, eng1))"

section \<open>Values used at concrete inputs\<close>

definition row_warnings :: "builtins \<Rightarrow> (string \<times> site_info) list \<Rightarrow> cols \<Rightarrow> row \<Rightarrow> string list" where
  \<comment> \<open>the warnings one row adds to the log: one when its site has no mapping, else none\<close>
  "row_warnings py site_lookup cs r =
     (let site_name = safe_get r (site_col cs) (PStr [])
      in case map_site py site_name site_lookup of
           None \<Rightarrow> [site_warning py site_name]
         | Some s \<Rightarrow> [])"

definition py_sample :: builtins where
  \<comment> \<open>an instance of the builtins for the concrete inputs below, whose cells hold texts and
      numbers that are neither printed nor parsed: no text is a number\<close>
  "py_sample = \<lparr> str_int = (\<lambda>n. ''int''), str_float = (\<lambda>x. ''float''),
                 float_str = (\<lambda>s. None) \<rparr>"

definition eng_sample :: engine where
  \<comment> \<open>an engine with two template columns and empty mapping sheets\<close>
  "eng_sample = \<lparr> template_columns = [''Nom du site'', ''Masse totale (kg)''],
     dechet_df = \<lparr> columns = [col_formule], rows = [] \<rparr>,
     site_df = \<lparr> columns = [col_formule], rows = [] \<rparr>,
     dechet_to_agrege = [], traitement_lookup = [], warnings = [] \<rparr>"

section \<open>Choice of the worksheet\<close>

text \<open>
  Claim C9. With a list of sheet-name keywords, the worksheet read should be the first match
  of the first keyword. The loop of \<^verbatim>\<open>_read_file\<close> leaves only its inner loop at a match,
  so a later keyword that matches replaces the choice: for Suez (keywords registre,
  d\'echets, data) and a workbook with the sheets Data and Registre the sheet chosen is Data,
  not Registre. Without keywords, a workbook with a sheet Registre makes the code choose the
  name registre in lower case, which is not the name of that sheet.
\<close>

theorem choose_sheet_last_keyword_wins:
  "choose_sheet cfg_Suez [''Data'', ''Registre''] = SheetName ''Data'' \<and>
   choose_sheet cfg_Veolia [''Feuil1'', ''Registre''] = SheetName ''registre''"
  by code_simp

section \<open>Detection of the provider from a file name\<close>

lemma split_bar_word: "CHR ''|'' \<notin> set pat \<Longrightarrow> split_bar pat = [pat]"
  by (induction pat) auto

lemma re_search_word: "CHR ''|'' \<notin> set pat \<Longrightarrow> re_search pat s = str_in pat s"
  by (simp add: re_search_def split_bar_word)

lemma re_search_td:
  "re_search ''trackdechet|td-registre'' s = (str_in ''trackdechet'' s \<or> str_in ''td-registre'' s)"
  by (simp add: re_search_def)

lemma registry_patterns:
  "get_pattern cfg_Veolia n1 = ''veolia''"
  "get_pattern cfg_Suez n2 = ''suez''"
  "get_pattern cfg_Apeyron n3 = ''apeyron''"
  "get_pattern cfg_Alchimistes n4 = ''alchimiste''"
  "get_pattern cfg_Paprec n5 = ''paprec''"
  "get_pattern cfg_Elise n6 = ''elise''"
  "get_pattern cfg_Screlec n7 = ''screlec''"
  "get_pattern cfg_Trackdechet n8 = ''trackdechet|td-registre''"
  by (simp_all add: get_pattern_def cfg_Veolia_def cfg_Suez_def cfg_Apeyron_def
        cfg_Alchimistes_def cfg_Paprec_def cfg_Elise_def cfg_Screlec_def cfg_Trackdechet_def
        empty_config_def)

lemma registry_search:
  "re_search ''veolia'' s = str_in ''veolia'' s"
  "re_search ''suez'' s = str_in ''suez'' s"
  "re_search ''apeyron'' s = str_in ''apeyron'' s"
  "re_search ''alchimiste'' s = str_in ''alchimiste'' s"
  "re_search ''paprec'' s = str_in ''paprec'' s"
  "re_search ''elise'' s = str_in ''elise'' s"
  "re_search ''screlec'' s = str_in ''screlec'' s"
  by (simp_all add: re_search_word)

lemma detect_unfold:
  "detect_prestataire f =
    (if str_in ''veolia'' (lower f) then Some ''Veolia''
     else if str_in ''suez'' (lower f) then Some ''Suez''
     else if str_in ''apeyron'' (lower f) then Some ''Apeyron''
     else if str_in ''alchimiste'' (lower f) then Some ''Les Alchimistes''
     else if str_in ''paprec'' (lower f) then Some ''Paprec''
     else if str_in ''elise'' (lower f) then Some ''Elise''
     else if str_in ''screlec'' (lower f) then Some ''Screlec''
     else if str_in ''trackdechet'' (lower f) \<or> str_in ''td-registre'' (lower f)
          then Some ''Trackdechet''
     else None)"
  by (simp only: detect_prestataire_def PRESTATAIRE_CONFIG_def detect_in.simps
        registry_patterns registry_search re_search_td)

lemma detect_in_find:
  "detect_in reg s =
     map_option fst (List.find (\<lambda>(nm, cfg). re_search (get_pattern cfg nm) s) reg)"
  by (induction reg) auto

text \<open>
  Claim C8. \<^verbatim>\<open>detect_prestataire\<close> lower-cases the file name and returns the first provider,
  in the order of the registry, whose pattern is found in it: a name that contains
  \<^verbatim>\<open>veolia\<close> in any case gives Veolia; a name that contains \<^verbatim>\<open>td-registre\<close> gives Trackdechet
  provided none of the seven patterns that come earlier in the registry occurs in it; a
  name in which no pattern occurs gives no provider.
\<close>

theorem detect_prestataire_first_match:
  "detect_prestataire f =
     map_option fst (List.find (\<lambda>(nm, cfg). re_search (get_pattern cfg nm) (lower f))
                               PRESTATAIRE_CONFIG) \<and>
   (str_in ''veolia'' (lower f) \<longrightarrow> detect_prestataire f = Some ''Veolia'') \<and>
   (str_in ''td-registre'' (lower f) \<and>
    \<not> list_ex (\<lambda>p. str_in p (lower f))
         [''veolia'', ''suez'', ''apeyron'', ''alchimiste'', ''paprec'', ''elise'', ''screlec'']
      \<longrightarrow> detect_prestataire f = Some ''Trackdechet'') \<and>
   (\<not> list_ex (\<lambda>(nm, cfg). re_search (get_pattern cfg nm) (lower f)) PRESTATAIRE_CONFIG
      \<longrightarrow> detect_prestataire f = None)"
proof -
  have a: "detect_prestataire f =
     map_option fst (List.find (\<lambda>(nm, cfg). re_search (get_pattern cfg nm) (lower f))
                               PRESTATAIRE_CONFIG)"
    by (simp only: detect_prestataire_def detect_in_find)
  have b: "str_in ''veolia'' (lower f) \<longrightarrow> detect_prestataire f = Some ''Veolia''"
    by (simp add: detect_unfold)
  have c: "str_in ''td-registre'' (lower f) \<and>
    \<not> list_ex (\<lambda>p. str_in p (lower f))
         [''veolia'', ''suez'', ''apeyron'', ''alchimiste'', ''paprec'', ''elise'', ''screlec'']
      \<longrightarrow> detect_prestataire f = Some ''Trackdechet''"
    by (simp add: detect_unfold del: str_in.simps)
  have d: "\<not> list_ex (\<lambda>(nm, cfg). re_search (get_pattern cfg nm) (lower f)) PRESTATAIRE_CONFIG
      \<longrightarrow> detect_prestataire f = None"
    unfolding a by (induction PRESTATAIRE_CONFIG) (auto simp: list_ex_iff find_None_iff)
  from a b c d show ?thesis by blast
qed

theorem detect_prestataire_td_counterexample:
  "str_in ''td-registre'' (lower ''suez_td-registre.xlsx'') \<and>
   detect_prestataire ''suez_td-registre.xlsx'' = Some ''Suez'' \<and>
   detect_prestataire ''suez_td-registre.xlsx'' \<noteq> Some ''Trackdechet''"
  by code_simp

theorem detect_prestataire_first_match_witness:
  "detect_prestataire ''Export_VEOLIA_2024.xlsx'' = Some ''Veolia'' \<and>
   detect_prestataire ''TD-Registre_mars.xlsx'' = Some ''Trackdechet'' \<and>
   detect_prestataire ''rapport.xlsx'' = None"
proof -
  have h1: "str_in ''veolia'' (lower ''Export_VEOLIA_2024.xlsx'')" by code_simp
  have h2: "str_in ''td-registre'' (lower ''TD-Registre_mars.xlsx'') \<and>
    \<not> list_ex (\<lambda>p. str_in p (lower ''TD-Registre_mars.xlsx''))
         [''veolia'', ''suez'', ''apeyron'', ''alchimiste'', ''paprec'', ''elise'', ''screlec'']"
    by code_simp
  have h3: "\<not> list_ex (\<lambda>(nm, cfg). re_search (get_pattern cfg nm) (lower ''rapport.xlsx''))
              PRESTATAIRE_CONFIG"
    by code_simp
  from h1 h2 h3 detect_prestataire_first_match [of "''Export_VEOLIA_2024.xlsx''"]
    detect_prestataire_first_match [of "''TD-Registre_mars.xlsx''"]
    detect_prestataire_first_match [of "''rapport.xlsx''"]
  show ?thesis by blast
qed

section \<open>Facts about the helpers\<close>

lemma str_in_Nil: "str_in [] s"
  by (induction s) simp_all

lemma safe_get_not_isna: "\<not> isna dflt \<Longrightarrow> \<not> isna (safe_get r c dflt)"
  by (simp add: safe_get_def Let_def split: option.splits)

lemma safe_get_None: "safe_get r None dflt = dflt"
  by (simp add: safe_get_def)

lemma safe_get_Some:
  "safe_get r (Some c) dflt = (if isna (row_get r c) then dflt else row_get r c)"
  by (simp add: safe_get_def Let_def)

lemma partial_match_find:
  "partial_match key sl =
     map_option snd (List.find (\<lambda>(k, v). str_in key k \<or> str_in k key) sl)"
  by (induction key sl rule: partial_match.induct) simp_all

lemma map_agrege_warnings:
  "map_agrege py (eng \<lparr> warnings := w \<rparr>) d = map_agrege py eng d"
  by (simp add: map_agrege_def)

lemma lookup_agrege_warnings:
  "lookup_agrege (eng \<lparr> warnings := w \<rparr>) a = lookup_agrege eng a"
  by (cases a) (simp_all add: lookup_agrege_def)

lemma map_traitement_warnings:
  "map_traitement py (eng \<lparr> warnings := w \<rparr>) a c = map_traitement py eng a c"
  by (simp add: map_traitement_def lookup_agrege_warnings cong: option.case_cong)

lemma build_row_fields:
  "row_get (build_row py prest site date_val waste_code dechet_fin dechets_agrege dechets_prest
      weight quantity volume_contenant type_contenant volume_total trait code_final code_prest
      bsd transporter exutoire) ''Nom du site'' = nom_site site"
  "row_get (build_row py prest site date_val waste_code dechet_fin dechets_agrege dechets_prest
      weight quantity volume_contenant type_contenant volume_total trait code_final code_prest
      bsd transporter exutoire) ''Code de la prestation'' = code_prestation site"
  "row_get (build_row py prest site date_val waste_code dechet_fin dechets_agrege dechets_prest
      weight quantity volume_contenant type_contenant volume_total trait code_final code_prest
      bsd transporter exutoire) ''Prestataire'' =
     cell_or (cell_or (prestataire site) transporter) (PStr prest)"
  "row_get (build_row py prest site date_val waste_code dechet_fin dechets_agrege dechets_prest
      weight quantity volume_contenant type_contenant volume_total trait code_final code_prest
      bsd transporter exutoire) ''Masse totale (kg)'' = weight"
  "row_get (build_row py prest site date_val waste_code dechet_fin dechets_agrege dechets_prest
      weight quantity volume_contenant type_contenant volume_total trait code_final code_prest
      bsd transporter exutoire) ''Nombre de contenants'' = quantity"
  "row_get (build_row py prest site date_val waste_code dechet_fin dechets_agrege dechets_prest
      weight quantity volume_contenant type_contenant volume_total trait code_final code_prest
      bsd transporter exutoire) ''Volume contenant (L)'' = int_cell volume_contenant"
  "row_get (build_row py prest site date_val waste_code dechet_fin dechets_agrege dechets_prest
      weight quantity volume_contenant type_contenant volume_total trait code_final code_prest
      bsd transporter exutoire) ''Type de contenant'' = type_contenant"
  "row_get (build_row py prest site date_val waste_code dechet_fin dechets_agrege dechets_prest
      weight quantity volume_contenant type_contenant volume_total trait code_final code_prest
      bsd transporter exutoire) ''Volume total (L)'' = volume_total"
  "row_get (build_row py prest site date_val waste_code dechet_fin dechets_agrege dechets_prest
      weight quantity volume_contenant type_contenant volume_total trait code_final code_prest
      bsd transporter exutoire) ''Traitement'' = trait"
  "row_get (build_row py prest site date_val waste_code dechet_fin dechets_agrege dechets_prest
      weight quantity volume_contenant type_contenant volume_total trait code_final code_prest
      bsd transporter exutoire) ''Code traitement'' = code_final"
  "row_get (build_row py prest site date_val waste_code dechet_fin dechets_agrege dechets_prest
      weight quantity volume_contenant type_contenant volume_total trait code_final code_prest
      bsd transporter exutoire) ''Code traitement prestataire'' = code_prest"
  by (simp_all add: build_row_def row_get_def)

lemma build_row_not_empty:
  "build_row py prest site date_val waste_code dechet_fin dechets_agrege dechets_prest
      weight quantity volume_contenant type_contenant volume_total trait code_final code_prest
      bsd transporter exutoire \<noteq> []"
  by (simp add: build_row_def)

lemma process_row_engine:
  "snd (process_row py eng r cs prest cfg dl dd sl) =
     eng \<lparr> warnings := warnings eng @ row_warnings py sl cs r \<rparr>"
  by (simp add: process_row_def row_warnings_def Let_def
           split: option.splits sum.splits prod.splits)

lemma process_row_skip_iff:
  "fst (process_row py eng r cs prest cfg dl dd sl) = Inr None \<longleftrightarrow>
     bsdd_format cfg \<and> eq_zero (safe_get r (weight_col cs) (PInt 0))"
  using safe_get_not_isna [of "PInt 0" r "weight_col cs"]
  by (simp add: process_row_def Let_def isna_def split: option.splits sum.splits prod.splits)

lemma process_row_fields:
  assumes "fst (process_row py eng r cs prest cfg dl dd sl) = Inr (Some row)"
  shows "row_get row ''Nom du site'' =
           nom_site (case map_site py (safe_get r (site_col cs) (PStr [])) sl of
                       None \<Rightarrow> sentinel_site | Some s \<Rightarrow> s)"
    and "row_get row ''Code de la prestation'' =
           code_prestation (case map_site py (safe_get r (site_col cs) (PStr [])) sl of
                       None \<Rightarrow> sentinel_site | Some s \<Rightarrow> s)"
    and "row_get row ''Prestataire'' =
           cell_or (cell_or (prestataire (case map_site py (safe_get r (site_col cs) (PStr [])) sl of
                       None \<Rightarrow> sentinel_site | Some s \<Rightarrow> s))
                     (safe_get r (cols_get cs ''transporter'') PNone)) (PStr prest)"
    and "convert_weight py cfg (safe_get r (weight_col cs) (PInt 0)) =
           Inr (row_get row ''Masse totale (kg)'')"
    and "row_get row ''Nombre de contenants'' = safe_get r (quantity_col cs) (PInt 1)"
    and "container_info prest (safe_get r (cols_get cs ''container'') (PStr [])) =
           Inr (vc, tc) \<Longrightarrow>
         row_get row ''Volume contenant (L)'' = int_cell vc \<and>
         row_get row ''Type de contenant'' = tc \<and>
         total_volume vc (safe_get r (quantity_col cs) (PInt 1)) =
           Inr (row_get row ''Volume total (L)'')"
    and "row_get row ''Traitement'' =
           snd (map_traitement py eng
                  (map_agrege py eng (map_dechet py (safe_get r (waste_col cs) (PStr [])) dl dd))
                  (safe_get r (code_col cs) (PStr [])))"
    and "row_get row ''Code traitement'' =
           (let code_prest = safe_get r (code_col cs) (PStr []);
                mapped = map_traitement py eng
                  (map_agrege py eng (map_dechet py (safe_get r (waste_col cs) (PStr [])) dl dd))
                  code_prest
            in if fst mapped = PNone then code_prest else fst mapped)"
    and "row_get row ''Code traitement prestataire'' = safe_get r (code_col cs) (PStr [])"
  using assms
  by (auto simp: process_row_def Let_def build_row_fields map_agrege_warnings
        map_traitement_warnings split: if_splits option.splits sum.splits prod.splits)

section \<open>A blank site value\<close>

text \<open>
  Claim C10. A row whose site column is not found, whose site cell is absent, or whose site
  cell is blank, is looked up with the empty key. With a site lookup that is not empty the
  sentinel is never used: the lookup gives the entry whose key is the empty string where
  there is one (the exact match), and else the first entry of the lookup, since the empty
  string occurs in every key. No warning is recorded for the row and the engine is left as
  it was.
\<close>

theorem map_site_blank_value:
  assumes "site_lookup \<noteq> []"
    and "case site_col cs of
           None \<Rightarrow> True
         | Some c \<Rightarrow> isna (row_get r c) \<or> strip (py_str py (row_get r c)) = []"
  shows "map_site py (safe_get r (site_col cs) (PStr [])) site_lookup =
           Some (case map_of site_lookup [] of
                   Some v \<Rightarrow> v
                 | None \<Rightarrow> snd (hd site_lookup)) \<and>
         row_warnings py site_lookup cs r = [] \<and>
         snd (process_row py eng r cs prest cfg dl dd site_lookup) = eng"
proof -
  let ?v = "safe_get r (site_col cs) (PStr [])"
  have na: "\<not> isna ?v"
    by (rule safe_get_not_isna) (simp add: isna_def)
  have key: "lower (strip (py_str py ?v)) = []"
    using assms(2)
    by (auto simp: safe_get_def Let_def strip_def lower_def split: option.splits)
  obtain k v rest where sl: "site_lookup = (k, v) # rest"
    using assms(1) by (cases site_lookup) auto
  have pm: "partial_match [] site_lookup = Some (snd (hd site_lookup))"
    by (simp add: sl str_in_Nil)
  have m: "map_site py ?v site_lookup =
           Some (case map_of site_lookup [] of
                   Some v \<Rightarrow> v
                 | None \<Rightarrow> snd (hd site_lookup))"
    using na by (simp add: map_site_def key pm split: option.splits)
  have w: "row_warnings py site_lookup cs r = []"
    by (simp add: row_warnings_def m)
  have "snd (process_row py eng r cs prest cfg dl dd site_lookup) = eng"
    by (simp add: process_row_engine w)
  with m w show ?thesis by simp
qed

theorem map_site_blank_counterexample:
  "map_site py_sample (safe_get [] (site_col []) (PStr []))
     [(''paris'', \<lparr> nom_site = PStr ''Paris'', code_prestation = PInt 1, prestataire = PNone \<rparr>),
      ([], \<lparr> nom_site = PStr ''Lyon'', code_prestation = PInt 2, prestataire = PNone \<rparr>)] =
     Some \<lparr> nom_site = PStr ''Lyon'', code_prestation = PInt 2, prestataire = PNone \<rparr> \<and>
   map_site py_sample (safe_get [] (site_col []) (PStr []))
     [(''paris'', \<lparr> nom_site = PStr ''Paris'', code_prestation = PInt 1, prestataire = PNone \<rparr>),
      ([], \<lparr> nom_site = PStr ''Lyon'', code_prestation = PInt 2, prestataire = PNone \<rparr>)] \<noteq>
     Some \<lparr> nom_site = PStr ''Paris'', code_prestation = PInt 1, prestataire = PNone \<rparr>"
  by code_simp

theorem map_site_blank_value_witness:
  "map_site py_sample (safe_get [(''Site'', PStr ''  '')] (site_col [(''site'', Some ''Site'')]) (PStr []))
     [(''paris'', \<lparr> nom_site = PStr ''Paris'', code_prestation = PInt 1, prestataire = PNone \<rparr>),
      (''lyon'', \<lparr> nom_site = PStr ''Lyon'', code_prestation = PInt 2, prestataire = PNone \<rparr>)] =
     Some \<lparr> nom_site = PStr ''Paris'', code_prestation = PInt 1, prestataire = PNone \<rparr> \<and>
   warnings (snd (process_row py_sample eng_sample [(''Site'', PStr ''  '')]
     [(''site'', Some ''Site'')] ''Veolia'' cfg_Veolia [] PNone
     [(''paris'', \<lparr> nom_site = PStr ''Paris'', code_prestation = PInt 1, prestataire = PNone \<rparr>),
      (''lyon'', \<lparr> nom_site = PStr ''Lyon'', code_prestation = PInt 2, prestataire = PNone \<rparr>)])) = []"
proof -
  let ?sl = "[(''paris'', \<lparr> nom_site = PStr ''Paris'', code_prestation = PInt 1, prestataire = PNone \<rparr>),
      (''lyon'', \<lparr> nom_site = PStr ''Lyon'', code_prestation = PInt 2, prestataire = PNone \<rparr>)]"
  have h1: "?sl \<noteq> []" by simp
  have h2: "case site_col [(''site'', Some ''Site'')] of
           None \<Rightarrow> True
         | Some c \<Rightarrow> isna (row_get [(''Site'', PStr ''  '')] c) \<or>
                      strip (py_str py_sample (row_get [(''Site'', PStr ''  '')] c)) = []"
    by code_simp
  have h3: "(case map_of ?sl [] of Some v \<Rightarrow> v | None \<Rightarrow> snd (hd ?sl)) =
     \<lparr> nom_site = PStr ''Paris'', code_prestation = PInt 1, prestataire = PNone \<rparr>"
    by simp
  have h4: "warnings eng_sample = []" by (simp add: eng_sample_def)
  from map_site_blank_value [OF h1 h2, of eng_sample "''Veolia''" cfg_Veolia "[]" PNone] h3 h4
  show ?thesis by simp
qed

end
